theory Spec2Isabelle
  imports Complex_Main
begin

section \<open>The conversion endpoint of routers/gemini/idealist\_to\_geo.py\<close>

text \<open>
  The endpoint \<open>convert_idealist_to_geo\<close> calls four collaborators that live outside the
  file: the link search, the Gemini text completion, the response parser and the helper
  that attaches links to parsed locations. They are fields of an environment record, and
  each of them either returns a value or raises. What the endpoint does to the outside
  world (imports, completion calls, parser calls, sleeps) is written to a trace that is
  passed along and returned with the result.
\<close>

subsection \<open>Exceptions\<close>

text \<open>
  \<open>HTTPException\<close> and \<open>Exception\<close> stand for instances of Python's class \<open>Exception\<close>
  (FastAPI's \<open>HTTPException\<close> is a subclass of it; \<open>Exception\<close> is any other instance).
  \<open>SystemExit\<close> and \<open>BaseException\<close> are the exceptions that a handler
  \<open>except Exception\<close> does not catch.
\<close>

datatype pyexc =
    HTTPException int string
  | Exception string
  | SystemExit
  | BaseException string

fun is_Exception :: "pyexc \<Rightarrow> bool" where
  "is_Exception (HTTPException status_code detail) = True"
| "is_Exception (Exception msg) = True"
| "is_Exception SystemExit = False"
| "is_Exception (BaseException msg) = False"

subsection \<open>Data\<close>

text \<open>A location is a Python dict with string keys; the endpoint never looks inside.\<close>

type_synonym location = "(string \<times> string) list"

text \<open>
  The dict made from the search result. The endpoint reads the key \<open>links\<close> and, under the
  key \<open>idealist_json\<close>, a dict with a key \<open>links\<close>. A key that is absent or holds
  \<open>None\<close> reads as \<open>None\<close> through \<open>.get\<close>, and \<open>None\<close> and the empty list are both
  false for \<open>or\<close>; an \<open>idealist_json\<close> that is present but has no method \<open>get\<close> is
  \<open>NotADict\<close>.
\<close>

datatype idealist_json = Absent | NotADict | Dict "string list option"

record search_dict =
  links :: "string list option"
  idealist_json :: idealist_json

record request =
  country :: string
  limit :: "int option"
  model :: "string option"

text \<open>The value of an environment variable that is read through \<open>int\<close>.\<close>

datatype envvar_int = Unset | Numeric int | Malformed

text \<open>What \<open>getattr(module, name, None)\<close> finds.\<close>

datatype attr = Missing | NonCallable | Callable

record env =
  search_volunteer_links :: "string \<Rightarrow> int option \<Rightarrow> pyexc + search_dict"
    \<comment> \<open>the search and the \<open>.dict()\<close> of its result, both inside the first \<open>try\<close>\<close>
  json_dumps :: "string list \<Rightarrow> string"
    \<comment> \<open>the library's \<open>json.dumps\<close> on the link list, not modelled further\<close>
  GEMINI_MAX_RETRIES :: envvar_int
  GEMINI_STRONG_MODEL :: "string option"
  GEMINI_FAST_MODEL :: "string option"
  call_gemini_import :: "pyexc + attr"
    \<comment> \<open>importing \<open>gemini.call_gemini\<close>: raises, or gives a module whose attribute
        \<open>generate_response\<close> is as stated\<close>
  parser_import :: "pyexc + attr"
    \<comment> \<open>importing \<open>gemini.parse_gemini_latlon_list\<close>, likewise\<close>
  generate_response :: "nat \<Rightarrow> string \<Rightarrow> string option \<Rightarrow> pyexc + string"
    \<comment> \<open>the \<open>n\<close>-th call of the completion client with a system prompt and a model
        (\<open>None\<close>: called without the keyword \<open>model\<close>); the text is the result after
        \<open>str\<close>, which is inside the same \<open>try\<close>\<close>
  parse_gemini_latlon_list :: "string \<Rightarrow> pyexc + location list option"
  add_links_to_locations :: "location list \<Rightarrow> string list \<Rightarrow> pyexc + location list"

record trace =
  imports_done :: "string list"
  gemini_calls :: "string option list"
  parse_calls :: "string list"
  sleeps :: "rat list"

definition trace0 :: trace where
  "trace0 = \<lparr>imports_done = [], gemini_calls = [], parse_calls = [], sleeps = []\<rparr>"

subsection \<open>Python's truth value and \<open>or\<close> on optional strings\<close>

fun truthy :: "string option \<Rightarrow> bool" where
  "truthy None = False"
| "truthy (Some s) = (s \<noteq> [])"

definition py_or :: "string option \<Rightarrow> string option \<Rightarrow> string option" where
  "py_or a b = (if truthy a then a else b)"

subsection \<open>The import helpers\<close>

definition import_call_gemini_module :: "env \<Rightarrow> pyexc + attr" where
  "import_call_gemini_module e =
     (case call_gemini_import e of
        Inr cg \<Rightarrow> Inr cg
      | Inl SystemExit \<Rightarrow> Inl SystemExit
      | Inl x \<Rightarrow> Inl x)"

definition import_parser_module :: "env \<Rightarrow> pyexc + unit" where
  "import_parser_module e =
     (case parser_import e of
        Inr parse_fn \<Rightarrow>
          (if parse_fn \<noteq> Callable
           then Inl (Exception ''parse_gemini_latlon_list not found or not callable in gemini.parse_gemini_latlon_list'')
           else Inr ())
      | Inl x \<Rightarrow> Inl x)"

subsection \<open>The link list and the prompt\<close>

definition links_list_of :: "search_dict \<Rightarrow> pyexc + string list" where
  "links_list_of sd =
     (case links sd of
        Some (l # ls) \<Rightarrow> Inr (l # ls)
      | _ \<Rightarrow>
          (case idealist_json sd of
             Absent \<Rightarrow> Inr []
           | NotADict \<Rightarrow> Inl (Exception ''AttributeError'')
           | Dict (Some (l # ls)) \<Rightarrow> Inr (l # ls)
           | Dict _ \<Rightarrow> Inr []))"

definition system_prompt :: "string \<Rightarrow> string" where
  "system_prompt links_json =
     ''You are given a JSON array of URLs (links) pointing to volunteer opportunity pages.'' @ [CHR 0x0A] @
     ''For each URL produce a JSON object with EXACTLY these two keys:'' @ [CHR 0x0A] @
     ''  - '' @ [CHR 0x22] @ ''latlon'' @ [CHR 0x22] @ '': an array [lat, lon] where lat and lon are parseable floats (latitude first),'' @ [CHR 0x0A] @
     ''  - '' @ [CHR 0x22] @ ''country'' @ [CHR 0x22] @ '': the country for that lat/lon, as a lower-case English name (for example: '' @ [CHR 0x27] @ ''japan'' @ [CHR 0x27] @ '').'' @ [CHR 0x0A, CHR 0x0A] @
     ''IMPORTANT:'' @ [CHR 0x0A] @
     '' - Output MUST be a single valid JSON array and NOTHING else (no markdown or commentary).'' @ [CHR 0x0A] @
     '' - Ensure lat and lon are parseable floats and in the order [latitude, longitude].'' @ [CHR 0x0A] @
     '' - Make sure that country is a full English name in lower case (no abbreviations).'' @ [CHR 0x0A] @
     '' - Return entries in the same order as the input links array. Omit any link if you cannot find coordinates.'' @ [CHR 0x0A, CHR 0x0A] @
     ''EXAMPLE OUTPUT FORMAT:'' @ [CHR 0x0A] @
     ''['' @ [CHR 0x0A] @
     ''  {'' @ [CHR 0x22] @ ''latlon'' @ [CHR 0x22] @ '': [35.6897, 139.6922], '' @ [CHR 0x22] @ ''country'' @ [CHR 0x22] @ '': '' @ [CHR 0x22] @ ''japan'' @ [CHR 0x22] @ ''},'' @ [CHR 0x0A] @
     ''  {'' @ [CHR 0x22] @ ''latlon'' @ [CHR 0x22] @ '': [-1.2833, 36.8167], '' @ [CHR 0x22] @ ''country'' @ [CHR 0x22] @ '': '' @ [CHR 0x22] @ ''kenya'' @ [CHR 0x22] @ ''}'' @ [CHR 0x0A] @
     '']'' @ [CHR 0x0A, CHR 0x0A] @
     ''Input links array:'' @ [CHR 0x0A] @
     links_json @ [CHR 0x0A, CHR 0x0A] @
     ''Reply now with ONLY the JSON array (no other text).''"

definition MAX_RETRIES :: "env \<Rightarrow> pyexc + int" where
  "MAX_RETRIES e =
     (case GEMINI_MAX_RETRIES e of
        Unset \<Rightarrow> Inr 3
      | Numeric n \<Rightarrow> Inr n
      | Malformed \<Rightarrow> Inl (Exception ''ValueError''))"

subsection \<open>The retry loop\<close>

text \<open>Lines 128 to 131: the model chosen on an attempt.\<close>

definition model_to_use :: "env \<Rightarrow> string option \<Rightarrow> nat \<Rightarrow> string option" where
  "model_to_use e mdl attempt =
     (if attempt = 1 then py_or mdl (GEMINI_FAST_MODEL e)
      else py_or (py_or mdl (GEMINI_STRONG_MODEL e)) (GEMINI_FAST_MODEL e))"

text \<open>Lines 135 to 138: the keyword \<open>model\<close> is passed only when the chosen model is truthy.\<close>

definition model_kwarg :: "string option \<Rightarrow> string option" where
  "model_kwarg m = (if truthy m then m else None)"

text \<open>
  The loop of lines 125 to 165. \<open>attempt\<close> counts from 0 and is compared with the integer
  \<open>MAX_RETRIES\<close>; \<open>parsed_locations\<close> is \<open>None\<close> until a parse has been made. The loop ends
  with a raised exception or with the last value of \<open>parsed_locations\<close>. The sleep after a
  failed call is \<open>0.8 * attempt\<close>, after an empty parse \<open>0.6 * attempt\<close>, as rationals.
\<close>

function retry_loop ::
  "env \<Rightarrow> string \<Rightarrow> string option \<Rightarrow> int \<Rightarrow> nat \<Rightarrow> location list option \<Rightarrow> trace
     \<Rightarrow> (pyexc + location list option) \<times> trace" where
  "retry_loop e prompt mdl maxr attempt0 parsed_locations tr =
     (if int attempt0 < maxr then
        (let attempt = attempt0 + 1;
             kw = model_kwarg (model_to_use e mdl attempt);
             tr1 = tr\<lparr>gemini_calls := gemini_calls tr @ [kw]\<rparr>
         in case generate_response e attempt prompt kw of
              Inl x \<Rightarrow>
                (if is_Exception x then
                   (if int attempt < maxr
                    then retry_loop e prompt mdl maxr attempt parsed_locations
                           (tr1\<lparr>sleeps := sleeps tr1 @ [(8 / 10) * of_nat attempt]\<rparr>)
                    else (Inl (HTTPException 502 ''Upstream Gemini call failed repeatedly.''), tr1))
                 else (Inl x, tr1))
            | Inr gemini_text_str \<Rightarrow>
                (let tr2 = tr1\<lparr>parse_calls := parse_calls tr1 @ [gemini_text_str]\<rparr>
                 in case parse_gemini_latlon_list e gemini_text_str of
                      Inl x \<Rightarrow>
                        (if is_Exception x then
                           (if int attempt < maxr
                            then retry_loop e prompt mdl maxr attempt (Some [])
                                   (tr2\<lparr>sleeps := sleeps tr2 @ [(6 / 10) * of_nat attempt]\<rparr>)
                            else retry_loop e prompt mdl maxr attempt (Some []) tr2)
                         else (Inl x, tr2))
                    | Inr None \<Rightarrow>
                        (if int attempt < maxr
                         then retry_loop e prompt mdl maxr attempt (Some [])
                                (tr2\<lparr>sleeps := sleeps tr2 @ [(6 / 10) * of_nat attempt]\<rparr>)
                         else retry_loop e prompt mdl maxr attempt (Some []) tr2)
                    | Inr (Some ps) \<Rightarrow>
                        (if ps \<noteq> [] then (Inr (Some ps), tr2)
                         else if int attempt < maxr
                         then retry_loop e prompt mdl maxr attempt (Some ps)
                                (tr2\<lparr>sleeps := sleeps tr2 @ [(6 / 10) * of_nat attempt]\<rparr>)
                         else retry_loop e prompt mdl maxr attempt (Some ps) tr2)))
      else (Inr parsed_locations, tr))"
  by pat_completeness auto
termination
  by (relation "measure (\<lambda>(e, prompt, mdl, maxr, attempt0, parsed_locations, tr). nat (maxr - int attempt0))") auto

declare retry_loop.simps [simp del]

subsection \<open>The endpoint\<close>

text \<open>Lines 167 to 177: the check after the loop and the attachment of the links.\<close>

definition attach_links ::
  "env \<Rightarrow> string list \<Rightarrow> location list option \<Rightarrow> trace \<Rightarrow> (pyexc + location list) \<times> trace" where
  "attach_links e links_list parsed_locations tr =
     (case parsed_locations of
        None \<Rightarrow> (Inl (HTTPException 502 ''Failed to obtain parsable response from Gemini.''), tr)
      | Some ps \<Rightarrow>
          (case add_links_to_locations e ps links_list of
             Inr final_locations \<Rightarrow> (Inr final_locations, tr)
           | Inl x \<Rightarrow> (if is_Exception x then (Inr ps, tr) else (Inl x, tr))))"

text \<open>Lines 103 to 177: from the configuration to the end, for a given link list.\<close>

definition convert_links ::
  "env \<Rightarrow> string option \<Rightarrow> string list \<Rightarrow> (pyexc + location list) \<times> trace" where
  "convert_links e mdl links_list =
     (case MAX_RETRIES e of
        Inl x \<Rightarrow> (Inl x, trace0)
      | Inr maxr \<Rightarrow>
          (let tr1 = trace0\<lparr>imports_done := [''gemini.call_gemini'']\<rparr>
           in case import_call_gemini_module e of
                Inl x \<Rightarrow> (if is_Exception x then (Inr [], tr1) else (Inl x, tr1))
              | Inr generate_fn \<Rightarrow>
                  (if generate_fn \<noteq> Callable then (Inr [], tr1)
                   else
                     (let tr2 = tr1\<lparr>imports_done := imports_done tr1 @ [''gemini.parse_gemini_latlon_list'']\<rparr>
                      in case import_parser_module e of
                           Inl x \<Rightarrow> (Inl x, tr2)
                         | Inr parse_fn \<Rightarrow>
                             (case retry_loop e (system_prompt (json_dumps e links_list)) mdl maxr 0 None tr2 of
                                (Inl x, tr3) \<Rightarrow> (Inl x, tr3)
                              | (Inr parsed_locations, tr3) \<Rightarrow>
                                  attach_links e links_list parsed_locations tr3)))))"

definition convert_idealist_to_geo :: "env \<Rightarrow> request \<Rightarrow> (pyexc + location list) \<times> trace" where
  "convert_idealist_to_geo e rq =
     (case search_volunteer_links e (country rq) (limit rq) of
        Inl (HTTPException status_code detail) \<Rightarrow> (Inl (HTTPException status_code detail), trace0)
      | Inl (Exception msg) \<Rightarrow> (Inr [], trace0)
      | Inl x \<Rightarrow> (Inl x, trace0)
      | Inr sd \<Rightarrow>
          (case links_list_of sd of
             Inl x \<Rightarrow> (Inl x, trace0)
           | Inr links_list \<Rightarrow> convert_links e (model rq) links_list))"

subsection \<open>Notions used to state the properties\<close>

text \<open>The trace when the retry loop is entered: both modules have been imported once.\<close>

definition trace_imports :: trace where
  "trace_imports =
     trace0\<lparr>imports_done := [''gemini.call_gemini'', ''gemini.parse_gemini_latlon_list'']\<rparr>"

text \<open>
  The run reaches the retry loop with the link list \<open>links_list\<close> and the retry count
  \<open>maxr\<close>: the search returns, the link list is read from its result, the retry count is
  an integer, and both imports give a callable function.
\<close>

definition setup_ok :: "env \<Rightarrow> request \<Rightarrow> string list \<Rightarrow> int \<Rightarrow> bool" where
  "setup_ok e rq links_list maxr \<longleftrightarrow>
     (case search_volunteer_links e (country rq) (limit rq) of
        Inl x \<Rightarrow> False
      | Inr sd \<Rightarrow> links_list_of sd = Inr links_list) \<and>
     MAX_RETRIES e = Inr maxr \<and>
     call_gemini_import e = Inr Callable \<and>
     parser_import e = Inr Callable"

text \<open>The prompt of a run, as line 83 builds it from the link list.\<close>

definition prompt_of :: "env \<Rightarrow> string list \<Rightarrow> string" where
  "prompt_of e links_list = system_prompt (json_dumps e links_list)"

text \<open>The keyword \<open>model\<close> of the call made on an attempt.\<close>

definition kwarg_of :: "env \<Rightarrow> string option \<Rightarrow> nat \<Rightarrow> string option" where
  "kwarg_of e mdl attempt = model_kwarg (model_to_use e mdl attempt)"

text \<open>
  The parser gives nothing for a text: it raises an instance of \<open>Exception\<close>, or returns
  \<open>None\<close>, or returns the empty list.
\<close>

definition parse_is_empty :: "env \<Rightarrow> string \<Rightarrow> bool" where
  "parse_is_empty e t =
     (case parse_gemini_latlon_list e t of
        Inl x \<Rightarrow> is_Exception x
      | Inr None \<Rightarrow> True
      | Inr (Some ps) \<Rightarrow> ps = [])"

text \<open>
  An attempt after which the loop goes on when attempts remain: the call raises an instance
  of \<open>Exception\<close>, or the call returns and the parser gives nothing for its text.
\<close>

definition attempt_retried :: "env \<Rightarrow> string \<Rightarrow> string option \<Rightarrow> nat \<Rightarrow> bool" where
  "attempt_retried e prompt mdl attempt =
     (case generate_response e attempt prompt (kwarg_of e mdl attempt) of
        Inl x \<Rightarrow> is_Exception x
      | Inr t \<Rightarrow> parse_is_empty e t)"

text \<open>
  A parser that behaves as \<open>parse\<close> does, except that where \<open>parse\<close> raises an instance of
  \<open>Exception\<close> or returns \<open>None\<close> it returns the empty list.
\<close>

definition returning_empty ::
  "(string \<Rightarrow> pyexc + location list option) \<Rightarrow> string \<Rightarrow> pyexc + location list option" where
  "returning_empty parse t =
     (case parse t of
        Inl x \<Rightarrow> (if is_Exception x then Inr (Some []) else Inl x)
      | Inr None \<Rightarrow> Inr (Some [])
      | Inr (Some ps) \<Rightarrow> Inr (Some ps))"

text \<open>
  Modelled from the spec: \<open>add_links_to_locations\<close> of utils/add\_links.py is not among the
  sources. Section 4.4 of the specification gives its result when it returns: each parsed
  record is paired with the link at the same position and gets the fields \<open>link\<close> and
  \<open>name\<close>, the name being derived from the link (by \<open>name_of\<close>, which the specification
  leaves open).
\<close>

definition add_links_to_locations_spec ::
  "(string \<Rightarrow> string) \<Rightarrow> location list \<Rightarrow> string list \<Rightarrow> location list" where
  "add_links_to_locations_spec name_of parsed links_list =
     map (\<lambda>(loc, l). loc @ [(''link'', l), (''name'', name_of l)]) (zip parsed links_list)"

subsection \<open>Example runs\<close>

definition links_ex :: "string list" where
  "links_ex = [''https://a.example/1'', ''https://a.example/2'']"

definition loc_japan :: location where
  "loc_japan = [(''latlon'', ''[35.68, 139.69]''), (''country'', ''japan'')]"

definition loc_kenya :: location where
  "loc_kenya = [(''latlon'', ''[-1.2833, 36.8167]''), (''country'', ''kenya'')]"

text \<open>
  What \<open>json.dumps\<close> prints for a list of strings none of which has a character that JSON
  escapes: the strings in double quotes, separated by a comma and a space.
\<close>

definition json_dumps_ex :: "string list \<Rightarrow> string" where
  "json_dumps_ex ls =
     (case ls of
        [] \<Rightarrow> ''[]''
      | l # rest \<Rightarrow>
          ''['' @ [CHR 0x22] @ l @ [CHR 0x22] @
          concat (map (\<lambda>l. '', '' @ [CHR 0x22] @ l @ [CHR 0x22]) rest) @ '']'')"

definition rq_ex :: request where
  "rq_ex = \<lparr>country = ''Japan'', limit = None, model = None\<rparr>"

text \<open>
  A run in which everything works at once: two links are found, the first call returns a
  text, the parser finds one location in it, and the links are attached by position.
\<close>

definition env_ex :: env where
  "env_ex =
     \<lparr>search_volunteer_links = (\<lambda>c l. Inr \<lparr>links = Some links_ex, idealist_json = Absent\<rparr>),
      json_dumps = json_dumps_ex,
      GEMINI_MAX_RETRIES = Unset,
      GEMINI_STRONG_MODEL = None,
      GEMINI_FAST_MODEL = None,
      call_gemini_import = Inr Callable,
      parser_import = Inr Callable,
      generate_response = (\<lambda>n p m. Inr ''[{latlon: [35.68, 139.69], country: japan}]''),
      parse_gemini_latlon_list = (\<lambda>t. Inr (Some [loc_japan])),
      add_links_to_locations = (\<lambda>ps ls. Inr (add_links_to_locations_spec (\<lambda>l. l) ps ls))\<rparr>"

text \<open>Every call returns the text \<open>ERROR\<close>, in which the parser finds nothing; two attempts.\<close>

definition env_unparsable :: env where
  "env_unparsable =
     env_ex\<lparr>GEMINI_MAX_RETRIES := Numeric 2,
            generate_response := (\<lambda>n p m. Inr ''ERROR''),
            parse_gemini_latlon_list := (\<lambda>t. Inr (Some []))\<rparr>"

text \<open>Every call raises.\<close>

definition env_call_fails :: env where
  "env_call_fails = env_ex\<lparr>generate_response := (\<lambda>n p m. Inl (Exception ''timeout''))\<rparr>"

text \<open>Both models are configured, and the first call raises.\<close>

definition env_escalate :: env where
  "env_escalate =
     env_ex\<lparr>GEMINI_STRONG_MODEL := Some ''gemini-2.5-pro'',
            GEMINI_FAST_MODEL := Some ''gemini-2.5-flash'',
            generate_response :=
              (\<lambda>n p m. if n < 2 then Inl (Exception ''timeout'')
                        else Inr ''[{latlon: [35.68, 139.69], country: japan}]'')\<rparr>"

text \<open>The parser raises on every text.\<close>

definition env_parser_raises :: env where
  "env_parser_raises =
     env_ex\<lparr>parse_gemini_latlon_list := (\<lambda>t. Inl (Exception ''JSONDecodeError''))\<rparr>"

text \<open>One link is found, the parser returns two locations, and attaching the links raises.\<close>

definition env_degrade :: env where
  "env_degrade =
     env_ex\<lparr>search_volunteer_links :=
              (\<lambda>c l. Inr \<lparr>links = Some [''https://a.example/1''], idealist_json = Absent\<rparr>),
            parse_gemini_latlon_list := (\<lambda>t. Inr (Some [loc_japan, loc_kenya])),
            add_links_to_locations := (\<lambda>ps ls. Inl (Exception ''KeyError''))\<rparr>"



text \<open>The search raises an HTTP error, or some other error.\<close>

definition env_search_http :: env where
  "env_search_http =
     env_ex\<lparr>search_volunteer_links := (\<lambda>c l. Inl (HTTPException 404 ''No results''))\<rparr>"

definition env_search_error :: env where
  "env_search_error =
     env_ex\<lparr>search_volunteer_links := (\<lambda>c l. Inl (Exception ''ConnectionError''))\<rparr>"

text \<open>The retry count is zero.\<close>

definition env_no_retries :: env where
  "env_no_retries = env_ex\<lparr>GEMINI_MAX_RETRIES := Numeric 0\<rparr>"

text \<open>
  The module \<open>gemini.call_gemini\<close> cannot be imported, or has no \<open>generate_response\<close>, or
  exits on import.
\<close>

definition env_import_error :: env where
  "env_import_error = env_ex\<lparr>call_gemini_import := Inl (Exception ''ModuleNotFoundError'')\<rparr>"

definition env_no_generate :: env where
  "env_no_generate = env_ex\<lparr>call_gemini_import := Inr Missing\<rparr>"

definition env_import_exits :: env where
  "env_import_exits = env_ex\<lparr>call_gemini_import := Inl SystemExit\<rparr>"

section \<open>Properties\<close>

subsection \<open>One turn of the loop\<close>

lemma retry_loop_done:
  "\<not> int a < maxr \<Longrightarrow> retry_loop e p mdl maxr a parsed tr = (Inr parsed, tr)"
  by (simp add: retry_loop.simps)

lemma retry_loop_call_failed:
  assumes "int a < maxr"
    and "generate_response e (Suc a) p (kwarg_of e mdl (Suc a)) = Inl x"
    and "is_Exception x"
  shows "retry_loop e p mdl maxr a parsed tr =
           (if int (Suc a) < maxr
            then retry_loop e p mdl maxr (Suc a) parsed
                   (tr\<lparr>gemini_calls := gemini_calls tr @ [kwarg_of e mdl (Suc a)],
                       sleeps := sleeps tr @ [(8 / 10) * of_nat (Suc a)]\<rparr>)
            else (Inl (HTTPException 502 ''Upstream Gemini call failed repeatedly.''),
                  tr\<lparr>gemini_calls := gemini_calls tr @ [kwarg_of e mdl (Suc a)]\<rparr>))"
  using assms by (subst retry_loop.simps) (simp add: Let_def kwarg_of_def)

lemma retry_loop_parse_empty:
  assumes "int a < maxr"
    and "generate_response e (Suc a) p (kwarg_of e mdl (Suc a)) = Inr t"
    and "parse_is_empty e t"
  shows "retry_loop e p mdl maxr a parsed tr =
           (if int (Suc a) < maxr
            then retry_loop e p mdl maxr (Suc a) (Some [])
                   (tr\<lparr>gemini_calls := gemini_calls tr @ [kwarg_of e mdl (Suc a)],
                       parse_calls := parse_calls tr @ [t],
                       sleeps := sleeps tr @ [(6 / 10) * of_nat (Suc a)]\<rparr>)
            else (Inr (Some []),
                  tr\<lparr>gemini_calls := gemini_calls tr @ [kwarg_of e mdl (Suc a)],
                      parse_calls := parse_calls tr @ [t]\<rparr>))"
  using assms
  by (subst retry_loop.simps)
     (simp add: Let_def kwarg_of_def parse_is_empty_def retry_loop_done
           split: sum.splits option.splits)

lemma retry_loop_parsed:
  assumes "int a < maxr"
    and "generate_response e (Suc a) p (kwarg_of e mdl (Suc a)) = Inr t"
    and "parse_gemini_latlon_list e t = Inr (Some ps)"
    and "ps \<noteq> []"
  shows "retry_loop e p mdl maxr a parsed tr =
           (Inr (Some ps),
            tr\<lparr>gemini_calls := gemini_calls tr @ [kwarg_of e mdl (Suc a)],
                parse_calls := parse_calls tr @ [t]\<rparr>)"
  using assms by (subst retry_loop.simps) (simp add: Let_def kwarg_of_def)

subsection \<open>Several turns\<close>

lemma retry_loop_skip:
  assumes "\<forall>j. a < j \<and> j \<le> b \<longrightarrow> attempt_retried e p mdl j"
    and "int b < maxr" and "a \<le> b"
  shows "\<exists>parsed' tr'.
           retry_loop e p mdl maxr a parsed tr = retry_loop e p mdl maxr b parsed' tr' \<and>
           length (gemini_calls tr') = length (gemini_calls tr) + (b - a)"
  using assms
proof (induction "b - a" arbitrary: a parsed tr)
  case 0
  then have "a = b" by simp
  then show ?case by auto
next
  case (Suc d)
  have lt: "int a < maxr" "int (Suc a) < maxr" using Suc.hyps(2) Suc.prems(2) by linarith+
  have again: "attempt_retried e p mdl (Suc a)" using Suc.hyps(2) Suc.prems(1) by simp
  have d: "d = b - Suc a" using Suc.hyps(2) by simp
  have rest: "\<forall>j. Suc a < j \<and> j \<le> b \<longrightarrow> attempt_retried e p mdl j"
    using Suc.prems(1) by simp
  have le: "Suc a \<le> b" using Suc.hyps(2) by simp
  note IH = Suc.hyps(1)[OF d rest Suc.prems(2) le]
  obtain parsed1 tr1 where one:
    "retry_loop e p mdl maxr a parsed tr = retry_loop e p mdl maxr (Suc a) parsed1 tr1"
    "length (gemini_calls tr1) = Suc (length (gemini_calls tr))"
  proof (cases "generate_response e (Suc a) p (kwarg_of e mdl (Suc a))")
    case (Inl x)
    with again have "is_Exception x" by (simp add: attempt_retried_def)
    from retry_loop_call_failed[OF lt(1) Inl this] lt(2) that show ?thesis by simp
  next
    case (Inr t)
    with again have "parse_is_empty e t" by (simp add: attempt_retried_def)
    from retry_loop_parse_empty[OF lt(1) Inr this] lt(2) that show ?thesis by simp
  qed
  from IH[of parsed1 tr1] obtain parsed' tr' where
    "retry_loop e p mdl maxr (Suc a) parsed1 tr1 = retry_loop e p mdl maxr b parsed' tr'"
    "length (gemini_calls tr') = length (gemini_calls tr1) + (b - Suc a)" by blast
  with one le show ?case by (intro exI[of _ parsed'] exI[of _ tr']) simp
qed

lemma retry_loop_first_success:
  assumes "\<forall>j. 1 \<le> j \<and> j < k \<longrightarrow> attempt_retried e p mdl j"
    and "1 \<le> k" and "int k \<le> maxr"
    and "generate_response e k p (kwarg_of e mdl k) = Inr t"
    and "parse_gemini_latlon_list e t = Inr (Some ps)"
    and "ps \<noteq> []"
  shows "\<exists>tr'. retry_loop e p mdl maxr 0 parsed tr = (Inr (Some ps), tr') \<and>
           length (gemini_calls tr') = length (gemini_calls tr) + k"
proof -
  obtain b where k: "k = Suc b" using assms(2) by (cases k) auto
  have "\<forall>j. 0 < j \<and> j \<le> b \<longrightarrow> attempt_retried e p mdl j" using assms(1) k by simp
  moreover have b: "int b < maxr" using assms(3) k by simp
  ultimately obtain parsed1 tr1 where skip:
    "retry_loop e p mdl maxr 0 parsed tr = retry_loop e p mdl maxr b parsed1 tr1"
    "length (gemini_calls tr1) = length (gemini_calls tr) + (b - 0)"
    using retry_loop_skip[of 0 b e p mdl maxr parsed tr] by blast
  from retry_loop_parsed[OF b assms(4)[unfolded k] assms(5,6)] skip k
  show ?thesis by simp
qed

lemma retry_loop_all_empty:
  assumes "\<And>n q m. \<exists>t. generate_response e n q m = Inr t \<and> parse_is_empty e t"
  shows "int a < maxr \<Longrightarrow>
         \<exists>tr'. retry_loop e p mdl maxr a parsed tr = (Inr (Some []), tr') \<and>
               length (gemini_calls tr') = length (gemini_calls tr) + (nat maxr - a)"
proof (induction "nat maxr - a" arbitrary: a parsed tr)
  case 0
  then show ?case by simp
next
  case (Suc d)
  obtain t where t: "generate_response e (Suc a) p (kwarg_of e mdl (Suc a)) = Inr t"
    "parse_is_empty e t" using assms by blast
  note step = retry_loop_parse_empty[OF Suc.prems t, of parsed tr]
  show ?case
  proof (cases "int (Suc a) < maxr")
    case True
    have d: "d = nat maxr - Suc a" using Suc.hyps(2) by simp
    from Suc.hyps(1)[OF d True] obtain tr' where
      "retry_loop e p mdl maxr (Suc a) (Some [])
         (tr\<lparr>gemini_calls := gemini_calls tr @ [kwarg_of e mdl (Suc a)],
             parse_calls := parse_calls tr @ [t],
             sleeps := sleeps tr @ [(6 / 10) * of_nat (Suc a)]\<rparr>) = (Inr (Some []), tr')"
      "length (gemini_calls tr') = Suc (length (gemini_calls tr)) + (nat maxr - Suc a)"
      by fastforce
    with step True Suc.prems show ?thesis by (intro exI[of _ tr']) simp
  next
    case False
    then have "nat maxr - a = 1" using Suc.prems by linarith
    with step False show ?thesis by simp
  qed
qed

lemma retry_loop_all_calls_fail:
  assumes fails: "\<And>n q m. \<exists>x. generate_response e n q m = Inl x \<and> is_Exception x"
  shows "int a < maxr \<Longrightarrow>
         retry_loop e p mdl maxr a parsed tr =
           (Inl (HTTPException 502 ''Upstream Gemini call failed repeatedly.''),
            tr\<lparr>gemini_calls := gemini_calls tr @ map (kwarg_of e mdl) [Suc a..<Suc (nat maxr)],
                sleeps := sleeps tr @ map (\<lambda>k. (8 / 10) * of_nat k) [Suc a..<nat maxr]\<rparr>)"
proof (induction "nat maxr - a" arbitrary: a tr)
  case 0
  then show ?case by simp
next
  case (Suc d)
  obtain x where x: "generate_response e (Suc a) p (kwarg_of e mdl (Suc a)) = Inl x"
    "is_Exception x" using fails by blast
  note step = retry_loop_call_failed[OF Suc.prems x, of parsed tr]
  show ?case
  proof (cases "int (Suc a) < maxr")
    case True
    have d: "d = nat maxr - Suc a" using Suc.hyps(2) by simp
    have l1: "[Suc a..<Suc (nat maxr)] = Suc a # [Suc (Suc a)..<Suc (nat maxr)]"
      using True by (simp add: upt_conv_Cons)
    have l2: "[Suc a..<nat maxr] = Suc a # [Suc (Suc a)..<nat maxr]"
      using True by (simp add: upt_conv_Cons)
    show ?thesis
      using True Suc.hyps(1)[OF d True] step by (simp add: l1 l2)
  next
    case False
    then have "nat maxr = Suc a" using Suc.prems by simp
    then show ?thesis using False step by simp
  qed
qed

lemma retry_loop_calls:
  "retry_loop e p mdl maxr a parsed tr = (res, tr') \<Longrightarrow>
   \<exists>n. n \<le> nat maxr - a \<and>
       gemini_calls tr' = gemini_calls tr @ map (kwarg_of e mdl) [Suc a..<Suc a + n]"
proof (induction "nat maxr - a" arbitrary: a parsed tr)
  case 0
  then have "\<not> int a < maxr" by linarith
  with 0 show ?case by (simp add: retry_loop_done)
next
  case (Suc d)
  have d: "d = nat maxr - Suc a" using Suc.hyps(2) by simp
  have lt: "int a < maxr" using Suc.hyps(2) by linarith
  define G where
    "G \<longleftrightarrow> (\<exists>n. n \<le> nat maxr - a \<and>
              gemini_calls tr' = gemini_calls tr @ map (kwarg_of e mdl) [Suc a..<Suc a + n])"
  have more: G
    if "retry_loop e p mdl maxr (Suc a) parsed1 tr1 = (res, tr')"
      and "gemini_calls tr1 = gemini_calls tr @ [kwarg_of e mdl (Suc a)]" for parsed1 tr1
  proof -
    from Suc.hyps(1)[OF d that(1)] obtain n where n: "n \<le> nat maxr - Suc a"
      "gemini_calls tr' = gemini_calls tr1 @ map (kwarg_of e mdl) [Suc (Suc a)..<Suc (Suc a) + n]"
      by blast
    have "[Suc a..<Suc a + Suc n] = Suc a # [Suc (Suc a)..<Suc (Suc a) + n]"
      by (simp add: upt_conv_Cons)
    then have "gemini_calls tr' = gemini_calls tr @ map (kwarg_of e mdl) [Suc a..<Suc a + Suc n]"
      using n(2) that(2) by simp
    moreover have "Suc n \<le> nat maxr - a" using n(1) lt by linarith
    ultimately show ?thesis unfolding G_def by blast
  qed
  have last: G
    if "gemini_calls tr' = gemini_calls tr @ [kwarg_of e mdl (Suc a)]"
  proof -
    have "gemini_calls tr' = gemini_calls tr @ map (kwarg_of e mdl) [Suc a..<Suc a + 1]"
      using that by simp
    moreover have "1 \<le> nat maxr - a" using lt by linarith
    ultimately show ?thesis unfolding G_def by blast
  qed
  have G
    using Suc.prems lt
    apply (subst (asm) retry_loop.simps)
    apply (simp add: Let_def kwarg_of_def[symmetric] split: sum.splits option.splits if_splits)
    by (auto intro: more last)
  then show ?case unfolding G_def .
qed


lemma model_to_use_parser_update [simp]:
  "model_to_use (e\<lparr>parse_gemini_latlon_list := f\<rparr>) mdl k = model_to_use e mdl k"
  by (simp add: model_to_use_def)

lemma retry_loop_returning_empty:
  "retry_loop (e\<lparr>parse_gemini_latlon_list := returning_empty (parse_gemini_latlon_list e)\<rparr>)
       p mdl maxr a parsed tr
     = retry_loop e p mdl maxr a parsed tr"
proof (induction "nat maxr - a" arbitrary: a parsed tr)
  case 0
  then have "\<not> int a < maxr" by linarith
  then show ?case by (simp add: retry_loop_done)
next
  case (Suc d)
  have d: "d = nat maxr - Suc a" using Suc.hyps(2) by simp
  note IH = Suc.hyps(1)[OF d]
  show ?case
    unfolding retry_loop.simps[of "e\<lparr>parse_gemini_latlon_list := returning_empty (parse_gemini_latlon_list e)\<rparr>" p mdl maxr a parsed tr]
      retry_loop.simps[of e p mdl maxr a parsed tr]
    by (simp add: Let_def IH returning_empty_def split: sum.splits option.splits)
qed

subsection \<open>From the endpoint to the loop\<close>

lemma snd_attach_links [simp]: "snd (attach_links e links_list parsed tr) = tr"
  by (simp add: attach_links_def split: option.splits sum.splits)

lemma convert_after_setup:
  assumes "setup_ok e rq links_list maxr"
  shows "convert_idealist_to_geo e rq =
           (case retry_loop e (prompt_of e links_list) (model rq) maxr 0 None trace_imports of
              (Inl x, tr) \<Rightarrow> (Inl x, tr)
            | (Inr parsed, tr) \<Rightarrow> attach_links e links_list parsed tr)"
  using assms
  by (auto simp: setup_ok_def convert_idealist_to_geo_def convert_links_def prompt_of_def
        trace_imports_def trace0_def import_call_gemini_module_def import_parser_module_def
        Let_def split: sum.splits)

lemma convert_links_calls:
  "\<exists>n. gemini_calls (snd (convert_links e mdl links_list)) = map (kwarg_of e mdl) [1..<Suc n]"
proof -
  define P where "P calls \<longleftrightarrow> (\<exists>n. calls = map (kwarg_of e mdl) [1..<Suc n])" for calls
  have none: "P []"
    unfolding P_def by (rule exI[of _ 0]) simp
  have loop: "P (gemini_calls tr')"
    if "retry_loop e p mdl maxr 0 None tr = (res, tr')" and "gemini_calls tr = []"
    for p maxr tr res tr'
    using retry_loop_calls[OF that(1)] that(2) unfolding P_def by auto
  have "P (gemini_calls (snd (convert_links e mdl links_list)))"
    unfolding convert_links_def
    by (auto simp: Let_def trace0_def split: sum.splits prod.splits intro: none loop)
  then show ?thesis unfolding P_def .
qed

lemma convert_calls:
  "\<exists>n. gemini_calls (snd (convert_idealist_to_geo e rq)) = map (kwarg_of e (model rq)) [1..<Suc n]"
proof -
  define P where "P calls \<longleftrightarrow> (\<exists>n. calls = map (kwarg_of e (model rq)) [1..<Suc n])" for calls
  have none: "P []"
    unfolding P_def by (rule exI[of _ 0]) simp
  have links: "P (gemini_calls (snd (convert_links e (model rq) ls)))" for ls
    unfolding P_def by (rule convert_links_calls)
  have "P (gemini_calls (snd (convert_idealist_to_geo e rq)))"
    unfolding convert_idealist_to_geo_def
    by (auto simp: trace0_def split: sum.splits pyexc.splits intro: none links)
  then show ?thesis unfolding P_def .
qed

subsection \<open>Evaluating the example runs\<close>

lemmas run_defs =
  convert_idealist_to_geo_def convert_links_def attach_links_def retry_loop.simps
  import_call_gemini_module_def import_parser_module_def links_list_of_def MAX_RETRIES_def
  model_to_use_def model_kwarg_def py_or_def trace0_def Let_def
  add_links_to_locations_spec_def

lemmas ex_defs =
  env_ex_def rq_ex_def links_ex_def

lemma setup_ok_env_ex: "setup_ok env_ex rq_ex links_ex 3"
  by (simp add: setup_ok_def ex_defs links_list_of_def MAX_RETRIES_def)

section \<open>The claims\<close>

subsection \<open>C1\<close>

lemma all_empty_parses_reach_attach:
  assumes "setup_ok e rq links_list maxr" and "1 \<le> maxr"
    and "\<And>n q m. \<exists>t. generate_response e n q m = Inr t \<and> parse_is_empty e t"
  shows "\<exists>tr. convert_idealist_to_geo e rq = attach_links e links_list (Some []) tr \<and>
              length (gemini_calls tr) = nat maxr"
proof -
  have "int 0 < maxr" using assms(2) by simp
  from retry_loop_all_empty[OF assms(3) this, of "prompt_of e links_list" "model rq" None trace_imports]
  obtain tr where "retry_loop e (prompt_of e links_list) (model rq) maxr 0 None trace_imports
      = (Inr (Some []), tr)" "length (gemini_calls tr) = nat maxr"
    by (auto simp: trace_imports_def trace0_def)
  then show ?thesis by (auto simp: convert_after_setup[OF assms(1)])
qed

lemma all_empty_parses_never_unparsable_error:
  assumes "setup_ok e rq links_list maxr" and "1 \<le> maxr"
    and "\<And>n q m. \<exists>t. generate_response e n q m = Inr t \<and> parse_is_empty e t"
  shows "fst (convert_idealist_to_geo e rq)
           \<noteq> Inl (HTTPException 502 ''Failed to obtain parsable response from Gemini.'')"
proof -
  from all_empty_parses_reach_attach[OF assms] obtain tr where
    "convert_idealist_to_geo e rq = attach_links e links_list (Some []) tr" by blast
  then show ?thesis
    by (auto simp: attach_links_def split: sum.splits)
qed

text \<open>
  C1. The claim: when each of the \<open>maxRetries\<close> attempts gets a text in which the parser finds
  nothing, the endpoint raises the 502 error for an unparsable response after exactly
  \<open>maxRetries\<close> attempts. The run below has \<open>GEMINI_MAX_RETRIES = 2\<close>, every call
  returns the text \<open>ERROR\<close> and the parser returns the empty list for it. The endpoint makes
  two calls and then returns the empty list; it raises nothing.
\<close>

theorem unparsable_run_returns_empty_list:
  "convert_idealist_to_geo env_unparsable rq_ex =
     (Inr [],
      \<lparr>imports_done = [''gemini.call_gemini'', ''gemini.parse_gemini_latlon_list''],
       gemini_calls = [None, None],
       parse_calls = [''ERROR'', ''ERROR''],
       sleeps = [6 / 10]\<rparr>)"
  by (simp add: env_unparsable_def ex_defs run_defs)

subsection \<open>C2\<close>

text \<open>
  C2. The claim: when the module \<open>gemini.call_gemini\<close> cannot be imported, or has no
  callable \<open>generate_response\<close>, the endpoint fails with an error instead of returning the
  empty list. In the run below the import raises \<open>ModuleNotFoundError\<close>, and the endpoint
  returns the empty list.
\<close>

theorem import_error_returns_empty_list:
  "fst (convert_idealist_to_geo env_import_error rq_ex) = Inr []"
  by (simp add: env_import_error_def ex_defs run_defs)

text \<open>
  C2, as the code has it. Let the search return and the retry count be an integer. When the
  import of \<open>gemini.call_gemini\<close> raises an instance of \<open>Exception\<close>, or the module has no
  callable \<open>generate_response\<close>, the endpoint returns the empty list; when the import raises
  something else (\<open>SystemExit\<close>, as a module does that finds no API key), that is raised to
  the caller. In each case the module has been imported once, the parser module not at all,
  and the completion client has not been called.
\<close>

theorem call_gemini_import_failure:
  assumes "search_volunteer_links e (country rq) (limit rq) = Inr sd"
    and "links_list_of sd = Inr links_list"
    and "MAX_RETRIES e = Inr maxr"
  shows "(\<forall>x. call_gemini_import e = Inl x \<and> is_Exception x \<longrightarrow>
            convert_idealist_to_geo e rq
              = (Inr [], trace0\<lparr>imports_done := [''gemini.call_gemini'']\<rparr>)) \<and>
         (\<forall>a. call_gemini_import e = Inr a \<and> a \<noteq> Callable \<longrightarrow>
            convert_idealist_to_geo e rq
              = (Inr [], trace0\<lparr>imports_done := [''gemini.call_gemini'']\<rparr>)) \<and>
         (\<forall>x. call_gemini_import e = Inl x \<and> \<not> is_Exception x \<longrightarrow>
            convert_idealist_to_geo e rq
              = (Inl x, trace0\<lparr>imports_done := [''gemini.call_gemini'']\<rparr>))"
  using assms
  by (auto simp: convert_idealist_to_geo_def convert_links_def import_call_gemini_module_def
        Let_def split: pyexc.splits)

theorem call_gemini_import_failure_witness:
  "convert_idealist_to_geo env_import_error rq_ex
     = (Inr [], trace0\<lparr>imports_done := [''gemini.call_gemini'']\<rparr>) \<and>
   convert_idealist_to_geo env_no_generate rq_ex
     = (Inr [], trace0\<lparr>imports_done := [''gemini.call_gemini'']\<rparr>) \<and>
   convert_idealist_to_geo env_import_exits rq_ex
     = (Inl SystemExit, trace0\<lparr>imports_done := [''gemini.call_gemini'']\<rparr>)"
proof -
  let ?sd = "\<lparr>links = Some links_ex, idealist_json = Absent\<rparr>"
  have l: "links_list_of ?sd = Inr links_ex"
    by (simp add: links_list_of_def links_ex_def)
  have s: "search_volunteer_links env_import_error (country rq_ex) (limit rq_ex) = Inr ?sd"
    "search_volunteer_links env_no_generate (country rq_ex) (limit rq_ex) = Inr ?sd"
    "search_volunteer_links env_import_exits (country rq_ex) (limit rq_ex) = Inr ?sd"
    by (simp_all add: env_import_error_def env_no_generate_def env_import_exits_def env_ex_def)
  have m: "MAX_RETRIES env_import_error = Inr 3" "MAX_RETRIES env_no_generate = Inr 3"
    "MAX_RETRIES env_import_exits = Inr 3"
    by (simp_all add: MAX_RETRIES_def env_import_error_def env_no_generate_def
          env_import_exits_def env_ex_def)
  have i: "call_gemini_import env_import_error = Inl (Exception ''ModuleNotFoundError'')"
    "call_gemini_import env_no_generate = Inr Missing"
    "call_gemini_import env_import_exits = Inl SystemExit"
    by (simp_all add: env_import_error_def env_no_generate_def env_import_exits_def env_ex_def)
  show ?thesis
    using call_gemini_import_failure[OF s(1) l m(1)] call_gemini_import_failure[OF s(2) l m(2)]
      call_gemini_import_failure[OF s(3) l m(3)] i
    by simp
qed

subsection \<open>C3\<close>

text \<open>
  C3. Let the run reach the retry loop with a retry count \<open>maxr\<close> of at least 1, and let
  every call of the completion client raise an instance of \<open>Exception\<close>. Then the endpoint
  raises the 502 error \<open>Upstream Gemini call failed repeatedly.\<close>; it has called the client
  exactly \<open>maxr\<close> times; it has slept \<open>0.8 * attempt\<close> after each of the attempts
  \<open>1, ..., maxr - 1\<close> and not after the last; and it has never called the parser.
\<close>

theorem failing_calls_exhaust_retries:
  assumes "setup_ok e rq links_list maxr" and "1 \<le> maxr"
    and "\<forall>n q m. \<exists>x. generate_response e n q m = Inl x \<and> is_Exception x"
  shows "fst (convert_idealist_to_geo e rq)
           = Inl (HTTPException 502 ''Upstream Gemini call failed repeatedly.'') \<and>
         length (gemini_calls (snd (convert_idealist_to_geo e rq))) = nat maxr \<and>
         sleeps (snd (convert_idealist_to_geo e rq))
           = map (\<lambda>attempt. (8 / 10) * of_nat attempt) [1..<nat maxr] \<and>
         parse_calls (snd (convert_idealist_to_geo e rq)) = []"
proof -
  have "int 0 < maxr" using assms(2) by simp
  moreover have "\<And>n q m. \<exists>x. generate_response e n q m = Inl x \<and> is_Exception x"
    using assms(3) by blast
  ultimately have "retry_loop e (prompt_of e links_list) (model rq) maxr 0 None trace_imports =
      (Inl (HTTPException 502 ''Upstream Gemini call failed repeatedly.''),
       trace_imports\<lparr>gemini_calls := gemini_calls trace_imports @ map (kwarg_of e (model rq)) [Suc 0..<Suc (nat maxr)],
                     sleeps := sleeps trace_imports @ map (\<lambda>k. (8 / 10) * of_nat k) [Suc 0..<nat maxr]\<rparr>)"
    by (rule retry_loop_all_calls_fail[rotated])
  then show ?thesis
    by (simp add: convert_after_setup[OF assms(1)] trace_imports_def trace0_def)
qed

theorem failing_calls_exhaust_retries_witness:
  "fst (convert_idealist_to_geo env_call_fails rq_ex)
     = Inl (HTTPException 502 ''Upstream Gemini call failed repeatedly.'') \<and>
   length (gemini_calls (snd (convert_idealist_to_geo env_call_fails rq_ex))) = 3 \<and>
   sleeps (snd (convert_idealist_to_geo env_call_fails rq_ex)) = [8 / 10, 16 / 10] \<and>
   parse_calls (snd (convert_idealist_to_geo env_call_fails rq_ex)) = []"
proof -
  have s: "setup_ok env_call_fails rq_ex links_ex 3"
    by (simp add: setup_ok_def env_call_fails_def ex_defs links_list_of_def MAX_RETRIES_def)
  have f: "\<forall>n q m. \<exists>x. generate_response env_call_fails n q m = Inl x \<and> is_Exception x"
    by (simp add: env_call_fails_def env_ex_def)
  have u: "[Suc 0..<3] = [1, 2]" by (simp add: upt_rec)
  show ?thesis
    using failing_calls_exhaust_retries[OF s _ f] by (simp add: u)
qed

subsection \<open>C4\<close>

text \<open>
  C4. In every run, the call made on attempt \<open>i + 1\<close> (the entry \<open>i\<close> of the list of calls)
  has the model the caller supplied, if there is one; otherwise the first call has the fast
  model, or no model when none is configured, and every later call has the strong model
  when it is configured, else the fast model, else no model. A model is supplied or
  configured when it is a non-empty string: Python's \<open>or\<close> and \<open>if\<close> take \<open>None\<close> and the
  empty string alike.
\<close>

theorem model_selection_per_attempt:
  assumes "i < length (gemini_calls (snd (convert_idealist_to_geo e rq)))"
  shows "gemini_calls (snd (convert_idealist_to_geo e rq)) ! i =
           (if truthy (model rq) then model rq
            else if i = 0 then
              (if truthy (GEMINI_FAST_MODEL e) then GEMINI_FAST_MODEL e else None)
            else if truthy (GEMINI_STRONG_MODEL e) then GEMINI_STRONG_MODEL e
            else if truthy (GEMINI_FAST_MODEL e) then GEMINI_FAST_MODEL e
            else None)"
proof -
  obtain n where n: "gemini_calls (snd (convert_idealist_to_geo e rq))
      = map (kwarg_of e (model rq)) [1..<Suc n]"
    using convert_calls by blast
  from assms have "i < n" by (simp add: n del: upt_Suc)
  then have "gemini_calls (snd (convert_idealist_to_geo e rq)) ! i = kwarg_of e (model rq) (Suc i)"
    unfolding n by (simp add: nth_append del: upt_Suc)
  then show ?thesis
    by (simp add: kwarg_of_def model_kwarg_def model_to_use_def py_or_def)
qed

theorem model_selection_per_attempt_witness:
  "gemini_calls (snd (convert_idealist_to_geo env_escalate rq_ex)) ! 0 = Some ''gemini-2.5-flash'' \<and>
   gemini_calls (snd (convert_idealist_to_geo env_escalate rq_ex)) ! 1 = Some ''gemini-2.5-pro''"
proof -
  have l: "length (gemini_calls (snd (convert_idealist_to_geo env_escalate rq_ex))) = 2"
    by (simp add: env_escalate_def ex_defs run_defs)
  have "0 < length (gemini_calls (snd (convert_idealist_to_geo env_escalate rq_ex)))"
    "1 < length (gemini_calls (snd (convert_idealist_to_geo env_escalate rq_ex)))"
    by (simp_all add: l)
  from model_selection_per_attempt[OF this(1)] model_selection_per_attempt[OF this(2)]
  show ?thesis
    by (simp add: env_escalate_def ex_defs)
qed

subsection \<open>C5\<close>

text \<open>
  C5. Let the run reach the retry loop, and let attempt \<open>k\<close> (with \<open>1 \<le> k \<le> maxr\<close>) be the
  first whose call returns a text in which the parser finds a non-empty list \<open>ps\<close>, every
  attempt before it being one after which the loop goes on. Then the client is called
  exactly \<open>k\<close> times, so on no later attempt, and the result of the endpoint is made from
  \<open>ps\<close> as it is: what \<open>add_links_to_locations\<close> returns for \<open>ps\<close> and the link list, or
  \<open>ps\<close> itself when that raises an instance of \<open>Exception\<close>.
\<close>

theorem first_nonempty_parse_stops_loop:
  assumes "setup_ok e rq links_list maxr"
    and "1 \<le> k" and "int k \<le> maxr"
    and "\<forall>j. 1 \<le> j \<and> j < k \<longrightarrow> attempt_retried e (prompt_of e links_list) (model rq) j"
    and "generate_response e k (prompt_of e links_list) (kwarg_of e (model rq) k) = Inr t"
    and "parse_gemini_latlon_list e t = Inr (Some ps)"
    and "ps \<noteq> []"
  shows "length (gemini_calls (snd (convert_idealist_to_geo e rq))) = k \<and>
         fst (convert_idealist_to_geo e rq) =
           (case add_links_to_locations e ps links_list of
              Inr final_locations \<Rightarrow> Inr final_locations
            | Inl x \<Rightarrow> (if is_Exception x then Inr ps else Inl x))"
proof -
  from retry_loop_first_success[OF assms(4,2,3,5,6,7), of None trace_imports]
  obtain tr where tr:
    "retry_loop e (prompt_of e links_list) (model rq) maxr 0 None trace_imports = (Inr (Some ps), tr)"
    "length (gemini_calls tr) = k"
    by (auto simp: trace_imports_def trace0_def)
  have "convert_idealist_to_geo e rq = attach_links e links_list (Some ps) tr"
    by (simp add: convert_after_setup[OF assms(1)] tr(1))
  then show ?thesis
    using tr(2) by (simp add: attach_links_def split: sum.splits)
qed

theorem first_nonempty_parse_stops_loop_witness:
  "length (gemini_calls (snd (convert_idealist_to_geo env_escalate rq_ex))) = 2 \<and>
   fst (convert_idealist_to_geo env_escalate rq_ex) =
     Inr [loc_japan @ [(''link'', ''https://a.example/1''), (''name'', ''https://a.example/1'')]]"
proof -
  have s: "setup_ok env_escalate rq_ex links_ex 3"
    by (simp add: setup_ok_def env_escalate_def ex_defs links_list_of_def MAX_RETRIES_def)
  have b: "\<forall>j. 1 \<le> j \<and> j < 2 \<longrightarrow>
      attempt_retried env_escalate (prompt_of env_escalate links_ex) (model rq_ex) j"
    by (simp add: attempt_retried_def env_escalate_def env_ex_def)
  have g: "generate_response env_escalate 2 (prompt_of env_escalate links_ex)
      (kwarg_of env_escalate (model rq_ex) 2) = Inr ''[{latlon: [35.68, 139.69], country: japan}]''"
    by (simp add: env_escalate_def env_ex_def)
  have p: "parse_gemini_latlon_list env_escalate ''[{latlon: [35.68, 139.69], country: japan}]''
      = Inr (Some [loc_japan])"
    by (simp add: env_escalate_def env_ex_def)
  have a: "add_links_to_locations env_escalate [loc_japan] links_ex
      = Inr [loc_japan @ [(''link'', ''https://a.example/1''), (''name'', ''https://a.example/1'')]]"
    by (simp add: env_escalate_def ex_defs add_links_to_locations_spec_def)
  show ?thesis
    using first_nonempty_parse_stops_loop[OF s _ _ b g p] by (simp add: a)
qed

subsection \<open>C6\<close>

text \<open>
  C6. A run in which the parser raises an instance of \<open>Exception\<close> or returns \<open>None\<close> for
  some texts is, in its result and in all it does, the run in which the parser returns the
  empty list for those texts: the exception does not reach the caller, and the loop goes
  on, or ends, as after an empty list.
\<close>

theorem parser_failure_is_empty_parse:
  "convert_idealist_to_geo
     (e\<lparr>parse_gemini_latlon_list := returning_empty (parse_gemini_latlon_list e)\<rparr>) rq
   = convert_idealist_to_geo e rq"
proof -
  let ?e = "e\<lparr>parse_gemini_latlon_list := returning_empty (parse_gemini_latlon_list e)\<rparr>"
  have same: "MAX_RETRIES ?e = MAX_RETRIES e"
    "import_call_gemini_module ?e = import_call_gemini_module e"
    "import_parser_module ?e = import_parser_module e"
    by (simp_all add: MAX_RETRIES_def import_call_gemini_module_def import_parser_module_def)
  have attach: "attach_links ?e ls parsed tr = attach_links e ls parsed tr" for ls parsed tr
    by (simp add: attach_links_def split: option.splits)
  have "convert_links ?e mdl ls = convert_links e mdl ls" for mdl ls
    unfolding convert_links_def same
    by (simp add: Let_def retry_loop_returning_empty attach
          cong: sum.case_cong prod.case_cong if_cong)
  then show ?thesis
    by (simp add: convert_idealist_to_geo_def cong: sum.case_cong pyexc.case_cong)
qed

theorem parser_failure_is_empty_parse_witness:
  "convert_idealist_to_geo env_parser_raises rq_ex =
   convert_idealist_to_geo (env_ex\<lparr>parse_gemini_latlon_list := (\<lambda>t. Inr (Some []))\<rparr>) rq_ex"
proof -
  have "returning_empty (parse_gemini_latlon_list env_parser_raises) = (\<lambda>t. Inr (Some []))"
    by (simp add: returning_empty_def env_parser_raises_def fun_eq_iff)
  moreover have "env_parser_raises\<lparr>parse_gemini_latlon_list := (\<lambda>t. Inr (Some []))\<rparr>
      = env_ex\<lparr>parse_gemini_latlon_list := (\<lambda>t. Inr (Some []))\<rparr>"
    by (simp add: env_parser_raises_def)
  ultimately show ?thesis
    using parser_failure_is_empty_parse[of env_parser_raises rq_ex] by simp
qed

subsection \<open>C7\<close>

text \<open>
  C7. Let the run reach the retry loop and let attempt \<open>k\<close> be the first whose text gives a
  non-empty list \<open>ps\<close>, as in C5. When \<open>add_links_to_locations\<close> raises an instance of
  \<open>Exception\<close> for \<open>ps\<close>, the endpoint does not fail: it returns \<open>ps\<close> unchanged.
\<close>

theorem reconciliation_failure_returns_parsed:
  assumes "setup_ok e rq links_list maxr"
    and "1 \<le> k" and "int k \<le> maxr"
    and "\<forall>j. 1 \<le> j \<and> j < k \<longrightarrow> attempt_retried e (prompt_of e links_list) (model rq) j"
    and "generate_response e k (prompt_of e links_list) (kwarg_of e (model rq) k) = Inr t"
    and "parse_gemini_latlon_list e t = Inr (Some ps)"
    and "ps \<noteq> []"
    and "add_links_to_locations e ps links_list = Inl x"
    and "is_Exception x"
  shows "fst (convert_idealist_to_geo e rq) = Inr ps"
proof -
  from retry_loop_first_success[OF assms(4,2,3,5,6,7), of None trace_imports]
  obtain tr where
    "retry_loop e (prompt_of e links_list) (model rq) maxr 0 None trace_imports = (Inr (Some ps), tr)"
    by blast
  then have "convert_idealist_to_geo e rq = attach_links e links_list (Some ps) tr"
    by (simp add: convert_after_setup[OF assms(1)])
  then show ?thesis
    using assms(8,9) by (simp add: attach_links_def)
qed

theorem reconciliation_failure_returns_parsed_witness:
  "fst (convert_idealist_to_geo env_degrade rq_ex) = Inr [loc_japan, loc_kenya]"
proof -
  have s: "setup_ok env_degrade rq_ex [''https://a.example/1''] 3"
    by (simp add: setup_ok_def env_degrade_def ex_defs links_list_of_def MAX_RETRIES_def)
  have b: "\<forall>j. 1 \<le> j \<and> j < 1 \<longrightarrow>
      attempt_retried env_degrade (prompt_of env_degrade [''https://a.example/1'']) (model rq_ex) j"
    by simp
  have g: "generate_response env_degrade 1 (prompt_of env_degrade [''https://a.example/1''])
      (kwarg_of env_degrade (model rq_ex) 1) = Inr ''[{latlon: [35.68, 139.69], country: japan}]''"
    by (simp add: env_degrade_def env_ex_def)
  have p: "parse_gemini_latlon_list env_degrade ''[{latlon: [35.68, 139.69], country: japan}]''
      = Inr (Some [loc_japan, loc_kenya])"
    by (simp add: env_degrade_def env_ex_def)
  have a: "add_links_to_locations env_degrade [loc_japan, loc_kenya] [''https://a.example/1'']
      = Inl (Exception ''KeyError'')"
    by (simp add: env_degrade_def env_ex_def)
  show ?thesis
    using reconciliation_failure_returns_parsed[OF s _ _ b g p _ a] by simp
qed

subsection \<open>The retry count bounds the calls of every run\<close>

lemma calls_bounded_by_max_retries:
  assumes "MAX_RETRIES e = Inr maxr"
  shows "length (gemini_calls (snd (convert_idealist_to_geo e rq))) \<le> nat maxr"
proof -
  have loop: "length (gemini_calls tr') \<le> nat maxr"
    if "retry_loop e p mdl maxr 0 None tr = (res, tr')" and "gemini_calls tr = []"
    for p mdl tr res tr'
    using retry_loop_calls[OF that(1)] that(2) by auto
  have "length (gemini_calls (snd (convert_links e mdl ls))) \<le> nat maxr" for mdl ls
    unfolding convert_links_def
    by (auto simp: assms Let_def trace0_def split: sum.splits prod.splits dest: loop)
  then show ?thesis
    unfolding convert_idealist_to_geo_def
    by (auto simp: trace0_def split: sum.splits pyexc.splits)
qed

subsection \<open>C8\<close>

text \<open>
  C8. When the search raises an \<open>HTTPException\<close>, the endpoint raises the same exception;
  when it raises any other instance of \<open>Exception\<close>, the endpoint returns the empty list.
  In both cases nothing has been imported and the completion client has not been called.
\<close>

theorem search_failure:
  "(search_volunteer_links e (country rq) (limit rq) = Inl (HTTPException status_code detail) \<longrightarrow>
      fst (convert_idealist_to_geo e rq) = Inl (HTTPException status_code detail) \<and>
      gemini_calls (snd (convert_idealist_to_geo e rq)) = [] \<and>
      imports_done (snd (convert_idealist_to_geo e rq)) = []) \<and>
   (search_volunteer_links e (country rq) (limit rq) = Inl (Exception msg) \<longrightarrow>
      fst (convert_idealist_to_geo e rq) = Inr [] \<and>
      gemini_calls (snd (convert_idealist_to_geo e rq)) = [] \<and>
      imports_done (snd (convert_idealist_to_geo e rq)) = [])"
  by (simp add: convert_idealist_to_geo_def trace0_def)

theorem search_failure_witness:
  "fst (convert_idealist_to_geo env_search_http rq_ex) = Inl (HTTPException 404 ''No results'') \<and>
   gemini_calls (snd (convert_idealist_to_geo env_search_http rq_ex)) = [] \<and>
   fst (convert_idealist_to_geo env_search_error rq_ex) = Inr [] \<and>
   gemini_calls (snd (convert_idealist_to_geo env_search_error rq_ex)) = []"
proof -
  have "search_volunteer_links env_search_http (country rq_ex) (limit rq_ex)
      = Inl (HTTPException 404 ''No results'')"
    by (simp add: env_search_http_def)
  moreover have "search_volunteer_links env_search_error (country rq_ex) (limit rq_ex)
      = Inl (Exception ''ConnectionError'')"
    by (simp add: env_search_error_def)
  ultimately show ?thesis
    using search_failure[of env_search_http rq_ex 404 "''No results''"]
      search_failure[of env_search_error rq_ex _ _ "''ConnectionError''"]
    by simp
qed

subsection \<open>C9\<close>






subsection \<open>C10\<close>

text \<open>
  C10. Let the run reach the retry loop (the search returns and both imports give a callable
  function) with a retry count that is zero or negative. Then the endpoint raises the 502
  error \<open>Failed to obtain parsable response from Gemini.\<close>, and it has called neither the
  completion client nor the parser.
\<close>

theorem no_retries_raises_unparsable:
  assumes "setup_ok e rq links_list maxr" and "maxr \<le> 0"
  shows "fst (convert_idealist_to_geo e rq)
           = Inl (HTTPException 502 ''Failed to obtain parsable response from Gemini.'') \<and>
         gemini_calls (snd (convert_idealist_to_geo e rq)) = [] \<and>
         parse_calls (snd (convert_idealist_to_geo e rq)) = []"
proof -
  have "\<not> int 0 < maxr" using assms(2) by simp
  then have "retry_loop e (prompt_of e links_list) (model rq) maxr 0 None trace_imports
      = (Inr None, trace_imports)"
    by (rule retry_loop_done)
  then show ?thesis
    by (simp add: convert_after_setup[OF assms(1)] attach_links_def trace_imports_def trace0_def)
qed

theorem no_retries_raises_unparsable_witness:
  "fst (convert_idealist_to_geo env_no_retries rq_ex)
     = Inl (HTTPException 502 ''Failed to obtain parsable response from Gemini.'') \<and>
   gemini_calls (snd (convert_idealist_to_geo env_no_retries rq_ex)) = [] \<and>
   parse_calls (snd (convert_idealist_to_geo env_no_retries rq_ex)) = []"
proof -
  have "setup_ok env_no_retries rq_ex links_ex 0"
    by (simp add: setup_ok_def env_no_retries_def ex_defs links_list_of_def MAX_RETRIES_def)
  from no_retries_raises_unparsable[OF this] show ?thesis by simp
qed

end
